theory Spec2Isabelle
  imports Complex_Main "HOL-Library.AList"
begin

section \<open>Python values\<close>

text \<open>
  A Python float, with rounding idealised: a finite value is a real number, and the three
  non-finite values are kept apart because \<open>math.isfinite\<close> and the comparison
  \<open>a > b\<close> tell them apart.
\<close>

datatype pyfloat = Fin real | PosInf | NegInf | NaN

text \<open>\<open>math.isfinite\<close>\<close>

fun isfinite :: "pyfloat \<Rightarrow> bool" where
  "isfinite (Fin _) = True"
| "isfinite PosInf = False"
| "isfinite NegInf = False"
| "isfinite NaN = False"

text \<open>Python's \<open>a > b\<close> on floats: every comparison with NaN is false.\<close>

fun fgt :: "pyfloat \<Rightarrow> pyfloat \<Rightarrow> bool" where
  "fgt NaN _ = False"
| "fgt _ NaN = False"
| "fgt (Fin a) (Fin b) = (a > b)"
| "fgt PosInf PosInf = False"
| "fgt PosInf _ = True"
| "fgt _ PosInf = False"
| "fgt NegInf _ = False"
| "fgt (Fin _) NegInf = True"

text \<open>\<open>a + b\<close> on floats.\<close>

fun fadd :: "pyfloat \<Rightarrow> pyfloat \<Rightarrow> pyfloat" where
  "fadd NaN _ = NaN"
| "fadd _ NaN = NaN"
| "fadd (Fin a) (Fin b) = Fin (a + b)"
| "fadd PosInf NegInf = NaN"
| "fadd NegInf PosInf = NaN"
| "fadd PosInf _ = PosInf"
| "fadd _ PosInf = PosInf"
| "fadd NegInf _ = NegInf"
| "fadd _ NegInf = NegInf"

text \<open>\<open>value * n\<close> for a float and a non-negative Python int.\<close>

fun fmul_nat :: "pyfloat \<Rightarrow> nat \<Rightarrow> pyfloat" where
  "fmul_nat (Fin a) n = Fin (a * real n)"
| "fmul_nat NaN _ = NaN"
| "fmul_nat PosInf n = (if n = 0 then NaN else PosInf)"
| "fmul_nat NegInf n = (if n = 0 then NaN else NegInf)"

text \<open>\<open>total / count\<close> for a float and a positive Python int.\<close>

fun fdiv_nat :: "pyfloat \<Rightarrow> nat \<Rightarrow> pyfloat" where
  "fdiv_nat (Fin a) n = Fin (a / real n)"
| "fdiv_nat x _ = x"

datatype error =
    SystemExit int
  | ZeroDivisionError
  | KeyError string
  | CheckpointNotFound string

text \<open>Python's \<open>a % b\<close> on ints: the sign follows the divisor, and a zero divisor raises.\<close>

definition py_mod :: "int \<Rightarrow> int \<Rightarrow> error + int" where
  "py_mod a b = (if b = 0 then Inl ZeroDivisionError else Inr (a mod b))"

section \<open>Metric aggregator\<close>

text \<open>
  Modelled from the spec: \<open>util.misc.MetricLogger\<close> and its meters are not among the source
  files. A meter holds the (value, weight) observations since its last reset;
  \<open>update(name, value, weight=1)\<close> records one, \<open>global_avg\<close> is
  \<open>sum(v*w)/sum(w)\<close>. A name that was never updated reads as an empty meter, whose average
  is taken to be zero (the spec leaves the choice open). The aggregator is a dictionary in
  insertion order.
\<close>

type_synonym meter = "(pyfloat \<times> nat) list"
type_synonym metric_logger = "(string \<times> meter) list"

definition meter_total :: "meter \<Rightarrow> pyfloat" where
  "meter_total m = foldl (\<lambda>acc (v, w). fadd acc (fmul_nat v w)) (Fin 0) m"

definition meter_count :: "meter \<Rightarrow> nat" where
  "meter_count m = sum_list (map snd m)"

definition global_avg :: "meter \<Rightarrow> pyfloat" where
  "global_avg m = (if meter_count m = 0 then Fin 0 else fdiv_nat (meter_total m) (meter_count m))"

definition meters_get :: "metric_logger \<Rightarrow> string \<Rightarrow> meter" where
  "meters_get ml name = (case map_of ml name of None \<Rightarrow> [] | Some m \<Rightarrow> m)"

definition meter_update :: "string \<Rightarrow> pyfloat \<Rightarrow> nat \<Rightarrow> metric_logger \<Rightarrow> metric_logger" where
  "meter_update name v w ml = AList.update name (meters_get ml name @ [(v, w)]) ml"

text \<open>\<open>metric_logger.update(name=value)\<close>: the weight is left at its default.\<close>

definition logger_update :: "string \<Rightarrow> pyfloat \<Rightarrow> metric_logger \<Rightarrow> metric_logger" where
  "logger_update name v ml = meter_update name v 1 ml"

text \<open>
  The run is followed on the coordinating process, alone in its group: the cross-process
  reduction adds nothing to its sums.
\<close>

definition synchronize_between_processes :: "metric_logger \<Rightarrow> metric_logger" where
  "synchronize_between_processes ml = ml"

text \<open>\<open>{k: meter.global_avg for k, meter in metric_logger.meters.items()}\<close>\<close>

definition global_avgs :: "metric_logger \<Rightarrow> (string \<times> pyfloat) list" where
  "global_avgs ml = map (\<lambda>(k, m). (k, global_avg m)) ml"

text \<open>\<open>d[k]\<close> on a dictionary.\<close>

definition dict_get :: "(string \<times> 'a) list \<Rightarrow> string \<Rightarrow> error + 'a" where
  "dict_get d k = (case map_of d k of None \<Rightarrow> Inl (KeyError k) | Some v \<Rightarrow> Inr v)"


section \<open>Data model\<close>

text \<open>A module object: its parameters and the \<open>training\<close> flag that \<open>train()\<close> and \<open>eval()\<close> set.\<close>

record 'w nn_module =
  weights :: 'w
  training :: bool

text \<open>The command-line options that the training loop reads (both scripts).\<close>

record args =
  accum_iter :: int
  save_freq :: int
  save_prefix :: string
  output_dir :: string
  resume :: string
  model_ckpt :: string
  encoder_ckpt :: string

text \<open>\<open>save_dict\<close>\<close>

record ('w, 'o, 's) checkpoint =
  ck_model :: 'w
  ck_optimizer :: 'o
  ck_args :: args
  ck_iteration :: nat
  ck_scaler :: 's

datatype logval = LFloat pyfloat | LInt nat

type_synonym log_stats = "(string \<times> logval) list"

text \<open>
  What a run does, in order. The index is the loop variable \<open>it\<close> of the batch on which
  the action happens.
\<close>

datatype event =
    SetTrain
  | SetEval
  | StartupZeroGrad
  | EncoderForward bool
  | Forward nat
  | ScaleLoss nat
  | Backward nat
  | OptimizerStep nat
  | ZeroGrad nat
  | MetricUpdate nat
  | EvalPhase nat
  | EvalForward
  | EvalAcc1 nat pyfloat
  | SaveCheckpoint nat
  | LogWrite nat

text \<open>
  The gradient buffers are kept as the list of contributions accumulated since they were
  last cleared: each backward pass adds the gradient of one batch's loss divided by
  \<open>accum_iter\<close>. The empty list is the zero gradient.
\<close>

type_synonym ('x, 't) grad_buf = "('x \<times> 't \<times> int) list"

record ('x, 't, 'w, 'o, 's) state =
  model :: "'w nn_module"
  grads :: "('x, 't) grad_buf"
  optimizer :: 'o
  loss_scaler :: 's
  metric_logger :: metric_logger
  best_eval_acc1 :: pyfloat
  disk :: "(string \<times> ('w, 'o, 's) checkpoint) list"
  log_file :: "log_stats list"
  trace :: "event list"

text \<open>
  The external collaborators, taken as parameters: the network, the loss, the accuracy
  helper, and the optimizer step behind the loss scaler.
\<close>

record ('x, 't, 'y, 'w, 'o, 's) ext =
  new_model :: 'w
  new_optimizer :: "'w \<Rightarrow> 'o"
  new_scaler :: 's
  forward :: "'w \<Rightarrow> bool \<Rightarrow> 'x \<Rightarrow> 'y"
  criterion :: "'y \<Rightarrow> 't \<Rightarrow> pyfloat"
  accuracy :: "'y \<Rightarrow> 't \<Rightarrow> pyfloat \<times> pyfloat"
  shape0 :: "'x \<Rightarrow> nat"
  scaler_step :: "'s \<Rightarrow> 'o \<Rightarrow> 'w \<Rightarrow> ('x, 't) grad_buf \<Rightarrow> 's \<times> 'o \<times> 'w"

section \<open>Helpers of \<open>util.misc\<close>\<close>

text \<open>
  Modelled from the spec: \<open>NativeScalerWithGradNormCount.__call__\<close> is not among the source
  files. It runs the scaled backward pass on every call, and performs the optimizer step
  and the scaler-state update only when \<open>update_grad\<close> holds.
\<close>

definition loss_scaler_call ::
  "('x, 't, 'y, 'w, 'o, 's, 'a) ext_scheme \<Rightarrow> nat \<Rightarrow> 'x \<times> 't \<times> int \<Rightarrow> bool \<Rightarrow>
   ('x, 't, 'w, 'o, 's, 'b) state_scheme \<Rightarrow> ('x, 't, 'w, 'o, 's, 'b) state_scheme" where
  "loss_scaler_call E it contribution update_grad st =
     (let st = st\<lparr>grads := grads st @ [contribution], trace := trace st @ [Backward it]\<rparr>
      in if update_grad then
           (case scaler_step E (loss_scaler st) (optimizer st) (weights (model st)) (grads st) of
              (s, opt, w) \<Rightarrow>
                st\<lparr>loss_scaler := s, optimizer := opt, model := (model st)\<lparr>weights := w\<rparr>,
                   trace := trace st @ [OptimizerStep it]\<rparr>)
         else st)"

text \<open>\<open>optimizer.zero_grad()\<close>\<close>

definition zero_grad :: "event \<Rightarrow> ('x, 't, 'w, 'o, 's, 'b) state_scheme \<Rightarrow> ('x, 't, 'w, 'o, 's, 'b) state_scheme" where
  "zero_grad ev st = st\<lparr>grads := [], trace := trace st @ [ev]\<rparr>"

text \<open>
  Modelled from the spec: \<open>util.misc.load_model\<close> is not among the source files. With an
  empty path nothing is loaded; an absent file is a load failure; otherwise the weights,
  the optimizer state and the scaler state are restored. The stored iteration is part of
  what is read, and the caller receives nothing from the call.
\<close>

definition load_model ::
  "string \<Rightarrow> ('x, 't, 'w, 'o, 's, 'b) state_scheme \<Rightarrow>
   error \<times> ('x, 't, 'w, 'o, 's, 'b) state_scheme + ('x, 't, 'w, 'o, 's, 'b) state_scheme" where
  "load_model path st =
     (if path = [] then Inr st
      else case map_of (disk st) path of
             None \<Rightarrow> Inl (CheckpointNotFound path, st)
           | Some c \<Rightarrow>
               Inr (st\<lparr>model := (model st)\<lparr>weights := ck_model c\<rparr>,
                       optimizer := ck_optimizer c, loss_scaler := ck_scaler c\<rparr>))"

text \<open>\<open>os.path.join(a, b)\<close> on POSIX paths.\<close>

definition path_join :: "string \<Rightarrow> string \<Rightarrow> string" where
  "path_join a b =
     (if b \<noteq> [] \<and> hd b = CHR ''/'' then b
      else if a = [] \<or> last a = CHR ''/'' then a @ b
      else a @ ''/'' @ b)"

text \<open>
  Modelled from the spec: \<open>util.misc.save_on_master\<close> is not among the source files. On the
  coordinating process it writes the bundle at the path, replacing what was there. The
  checkpoint files are kept as a dictionary from paths to bundles.
\<close>

definition save_on_master ::
  "('w, 'o, 's) checkpoint \<Rightarrow> string \<Rightarrow> ('x, 't, 'w, 'o, 's, 'b) state_scheme \<Rightarrow>
   ('x, 't, 'w, 'o, 's, 'b) state_scheme" where
  "save_on_master save_dict path st = st\<lparr>disk := AList.update path save_dict (disk st)\<rparr>"


section \<open>The training loop\<close>

text \<open>
  \<open>for it, batch in enumerate(train_loader)\<close>, over the batches that the stream has
  delivered so far; the second argument is the index of the next batch. An exception or an
  exit in the body ends the loop, with the state at that moment.
\<close>

fun for_enumerate ::
  "(nat \<Rightarrow> 'b \<Rightarrow> 'st \<Rightarrow> error \<times> 'st + 'st) \<Rightarrow> nat \<Rightarrow> 'b list \<Rightarrow> 'st \<Rightarrow> error \<times> 'st + 'st" where
  "for_enumerate body it [] st = Inr st"
| "for_enumerate body it (batch # rest) st =
     (case body it batch st of
        Inl x \<Rightarrow> Inl x
      | Inr st' \<Rightarrow> for_enumerate body (Suc it) rest st')"

text \<open>The state in which a run ends, whether it returned or was terminated.\<close>

definition final_state :: "error \<times> 'st + 'st \<Rightarrow> 'st" where
  "final_state r = (case r of Inl (e, st) \<Rightarrow> st | Inr st \<Rightarrow> st)"

text \<open>The indices at which a trace shows each kind of action, in order.\<close>

definition batch_indices :: "event list \<Rightarrow> nat list" where
  "batch_indices tr = concat (map (\<lambda>e. case e of Forward it \<Rightarrow> [it] | _ \<Rightarrow> []) tr)"

definition optimizer_steps :: "event list \<Rightarrow> nat list" where
  "optimizer_steps tr = concat (map (\<lambda>e. case e of OptimizerStep it \<Rightarrow> [it] | _ \<Rightarrow> []) tr)"

definition zero_grads :: "event list \<Rightarrow> nat list" where
  "zero_grads tr = concat (map (\<lambda>e. case e of ZeroGrad it \<Rightarrow> [it] | _ \<Rightarrow> []) tr)"

definition eval_phases :: "event list \<Rightarrow> nat list" where
  "eval_phases tr = concat (map (\<lambda>e. case e of EvalPhase it \<Rightarrow> [it] | _ \<Rightarrow> []) tr)"

definition saves :: "event list \<Rightarrow> nat list" where
  "saves tr = concat (map (\<lambda>e. case e of SaveCheckpoint it \<Rightarrow> [it] | _ \<Rightarrow> []) tr)"

section \<open>\<open>train_recognition.py\<close>\<close>

subsection \<open>\<open>evaluate\<close>\<close>

text \<open>
  One pass of the loop over the validation stream (lines 195 to 209): the loss goes through
  \<open>metric_logger.update\<close>, the two accuracies through their meters with \<open>n=batch_size\<close>.
\<close>

fun evaluate_loop ::
  "('x, 't, 'y, 'w, 'o, 's, 'a) ext_scheme \<Rightarrow> 'w nn_module \<Rightarrow> ('x \<times> 't) list \<Rightarrow>
   metric_logger \<times> event list \<Rightarrow> metric_logger \<times> event list" where
  "evaluate_loop E m [] acc = acc"
| "evaluate_loop E m ((samples, targets) # rest) (ml, evs) =
     (let outputs = forward E (weights m) (training m) samples;
          loss = criterion E outputs targets;
          (acc1, acc5) = accuracy E outputs targets;
          batch_size = shape0 E samples;
          ml = logger_update ''loss'' loss ml;
          ml = meter_update ''acc1'' acc1 batch_size ml;
          ml = meter_update ''acc5'' acc5 batch_size ml
      in evaluate_loop E m rest (ml, evs @ [EvalForward]))"

text \<open>
  \<open>evaluate(data_loader, model, device)\<close>: returns the dictionary of averages, and the
  module as the call leaves it, with the events of the call.
\<close>

definition evaluate ::
  "('x, 't, 'y, 'w, 'o, 's, 'a) ext_scheme \<Rightarrow> ('x \<times> 't) list \<Rightarrow> 'w nn_module \<Rightarrow>
   (string \<times> pyfloat) list \<times> 'w nn_module \<times> event list" where
  "evaluate E data_loader m =
     (let m = m\<lparr>training := False\<rparr>;
          (ml, evs) = evaluate_loop E m data_loader ([], [SetEval]);
          ml = synchronize_between_processes ml
      in (global_avgs ml, m, evs))"

subsection \<open>The loop body after the loss is computed\<close>

text \<open>
  The evaluation and checkpoint phase (lines 152 to 184; lines 147 to 179 of the second
  script, which differ only in the call of \<open>evaluate\<close>, passed here as \<open>ev\<close>).
\<close>

definition checkpoint_path :: "args \<Rightarrow> string" where
  "checkpoint_path a = path_join (output_dir a) (save_prefix a @ ''_checkpoint.pth'')"

definition eval_phase ::
  "args \<Rightarrow> ('w nn_module \<Rightarrow> (string \<times> pyfloat) list \<times> 'w nn_module \<times> event list) \<Rightarrow> nat \<Rightarrow>
   ('x, 't, 'w, 'o, 's, 'b) state_scheme \<Rightarrow>
   error \<times> ('x, 't, 'w, 'o, 's, 'b) state_scheme + ('x, 't, 'w, 'o, 's, 'b) state_scheme" where
  "eval_phase a ev it st =
     (let st = st\<lparr>trace := trace st @ [EvalPhase it]\<rparr>
      in (case ev (model st) of (test_stats, m, evs) \<Rightarrow>
           (let st = st\<lparr>model := m, trace := trace st @ evs\<rparr>
            in (case dict_get test_stats ''acc1'' of
                  Inl e \<Rightarrow> Inl (e, st)
                | Inr acc1 \<Rightarrow>
                   (let st = st\<lparr>trace := trace st @ [EvalAcc1 it acc1]\<rparr>;
                        st = (if fgt acc1 (best_eval_acc1 st) then
                                (let save_dict = \<lparr>ck_model = weights (model st),
                                                   ck_optimizer = optimizer st,
                                                   ck_args = a,
                                                   ck_iteration = it,
                                                   ck_scaler = loss_scaler st\<rparr>;
                                     st = save_on_master save_dict (checkpoint_path a) st
                                 in st\<lparr>best_eval_acc1 := acc1,
                                       trace := trace st @ [SaveCheckpoint it]\<rparr>)
                              else st);
                        st = st\<lparr>metric_logger := synchronize_between_processes (metric_logger st)\<rparr>;
                        train_stats = global_avgs (metric_logger st)
                    in (case dict_get test_stats ''loss'' of
                          Inl e \<Rightarrow> Inl (e, st)
                        | Inr eval_loss \<Rightarrow>
                           (let log_stats =
                                  map (\<lambda>(k, v). (''train_'' @ k, LFloat v)) train_stats
                                  @ [(''eval_loss'', LFloat eval_loss), (''iteration'', LInt it)]
                            in Inr (st\<lparr>log_file := log_file st @ [log_stats],
                                       metric_logger := [],
                                       model := (model st)\<lparr>training := True\<rparr>,
                                       trace := trace st @ [LogWrite it, SetTrain]\<rparr>))))))))"

text \<open>
  Lines 136 to 184 (131 to 179 of the second script), from \<open>loss_value = loss.item()\<close> on;
  \<open>step_update\<close> is lines 143 to 149, with \<open>r\<close> the remainder. The remainder
  \<open>(it + 1) % accum_iter\<close> is computed twice in the source, for the keyword
  argument and for the test that follows; the second cannot raise where the first did not.
\<close>

definition step_update ::
  "('x, 't, 'y, 'w, 'o, 's, 'a) ext_scheme \<Rightarrow> args \<Rightarrow> nat \<Rightarrow> 'x \<Rightarrow> 't \<Rightarrow> pyfloat \<Rightarrow> int \<Rightarrow>
   ('x, 't, 'w, 'o, 's, 'b) state_scheme \<Rightarrow> ('x, 't, 'w, 'o, 's, 'b) state_scheme" where
  "step_update E a it samples targets loss_value r st =
     (let st = loss_scaler_call E it (samples, targets, accum_iter a) (r = 0) st;
          st = (if r = 0 then zero_grad (ZeroGrad it) st else st)
      in st\<lparr>metric_logger := logger_update ''loss'' loss_value (metric_logger st),
            trace := trace st @ [MetricUpdate it]\<rparr>)"

definition after_loss ::
  "('x, 't, 'y, 'w, 'o, 's, 'a) ext_scheme \<Rightarrow> args \<Rightarrow>
   ('w nn_module \<Rightarrow> (string \<times> pyfloat) list \<times> 'w nn_module \<times> event list) \<Rightarrow> nat \<Rightarrow>
   'x \<Rightarrow> 't \<Rightarrow> pyfloat \<Rightarrow> ('x, 't, 'w, 'o, 's, 'b) state_scheme \<Rightarrow>
   error \<times> ('x, 't, 'w, 'o, 's, 'b) state_scheme + ('x, 't, 'w, 'o, 's, 'b) state_scheme" where
  "after_loss E a ev it samples targets loss_value st =
     (if \<not> isfinite loss_value then Inl (SystemExit 1, st)
      else
        let st = st\<lparr>trace := trace st @ [ScaleLoss it]\<rparr> in
        case py_mod (int it + 1) (accum_iter a) of
          Inl e \<Rightarrow> Inl (e, st)
        | Inr r \<Rightarrow>
            let st = step_update E a it samples targets loss_value r st
            in if it \<noteq> 0 then
                 (case py_mod (int it) (save_freq a) of
                    Inl e \<Rightarrow> Inl (e, st)
                  | Inr q \<Rightarrow> if q = 0 then eval_phase a ev it st else Inr st)
               else Inr st)"

subsection \<open>\<open>main\<close>\<close>

text \<open>Lines 129 to 184: the body of the loop for the batch with index \<open>it\<close>.\<close>

definition train_iter ::
  "('x, 't, 'y, 'w, 'o, 's, 'a) ext_scheme \<Rightarrow> args \<Rightarrow> ('x \<times> 't) list \<Rightarrow> nat \<Rightarrow> 'x \<times> 't \<Rightarrow>
   ('x, 't, 'w, 'o, 's) state \<Rightarrow>
   error \<times> ('x, 't, 'w, 'o, 's) state + ('x, 't, 'w, 'o, 's) state" where
  "train_iter E a val_loader it batch st =
     (case batch of (samples, targets) \<Rightarrow>
      let outputs = forward E (weights (model st)) (training (model st)) samples;
          loss_value = criterion E outputs targets;
          st = st\<lparr>trace := trace st @ [Forward it]\<rparr>
      in after_loss E a (evaluate E val_loader) it samples targets loss_value st)"

text \<open>Lines 98 to 123: the objects are built, the checkpoint is loaded, the run is set up.\<close>

definition startup ::
  "('x, 't, 'y, 'w, 'o, 's, 'a) ext_scheme \<Rightarrow> args \<Rightarrow> ((string \<times> ('w, 'o, 's) checkpoint) list) \<Rightarrow>
   error \<times> ('x, 't, 'w, 'o, 's) state + ('x, 't, 'w, 'o, 's) state" where
  "startup E a files =
     (let st = \<lparr>model = \<lparr>weights = new_model E, training = True\<rparr>,
                grads = [],
                optimizer = new_optimizer E (new_model E),
                loss_scaler = new_scaler E,
                metric_logger = [],
                best_eval_acc1 = Fin 0,
                disk = files,
                log_file = [],
                trace = []\<rparr>
      in case load_model (resume a) st of
           Inl x \<Rightarrow> Inl x
         | Inr st \<Rightarrow>
             let st = st\<lparr>model := (model st)\<lparr>training := True\<rparr>, trace := trace st @ [SetTrain]\<rparr>;
                 st = st\<lparr>metric_logger := []\<rparr>;
                 st = zero_grad StartupZeroGrad st;
                 st = st\<lparr>best_eval_acc1 := Fin 0\<rparr>
             in Inr st)"

definition main ::
  "('x, 't, 'y, 'w, 'o, 's, 'a) ext_scheme \<Rightarrow> args \<Rightarrow> ((string \<times> ('w, 'o, 's) checkpoint) list) \<Rightarrow>
   ('x \<times> 't) list \<Rightarrow> ('x \<times> 't) list \<Rightarrow>
   error \<times> ('x, 't, 'w, 'o, 's) state + ('x, 't, 'w, 'o, 's) state" where
  "main E a files train_loader val_loader =
     (case startup E a files of
        Inl x \<Rightarrow> Inl x
      | Inr st \<Rightarrow> for_enumerate (train_iter E a val_loader) 0 train_loader st)"


section \<open>\<open>train_recognition_noncached.py\<close>\<close>

text \<open>
  The second script adds the encoder: a module of its own, whose forward pass turns the raw
  samples into the features that the classifier reads.
\<close>

record ('x, 't, 'y, 'w, 'o, 's, 'r, 'e) nc_ext = "('x, 't, 'y, 'w, 'o, 's) ext" +
  new_encoder :: 'e
  forward_encoder :: "'e \<Rightarrow> bool \<Rightarrow> 'r \<Rightarrow> 'x"

record ('x, 't, 'w, 'o, 's, 'e) nc_state = "('x, 't, 'w, 'o, 's) state" +
  encoder :: "'e nn_module"

subsection \<open>\<open>evaluate\<close>\<close>

text \<open>
  Lines 192 to 216. \<open>grad_enabled\<close> is the gradient mode in force, which the events of the
  encoder's forward passes record. The forward pass of the classifier and the loss are
  computed at lines 202 to 204 and again at lines 207 to 209.
\<close>

fun evaluate_noncached_loop ::
  "('x, 't, 'y, 'w, 'o, 's, 'r, 'e, 'a) nc_ext_scheme \<Rightarrow> bool \<Rightarrow> 'w nn_module \<Rightarrow> 'e nn_module \<Rightarrow>
   ('r \<times> 't) list \<Rightarrow> metric_logger \<times> event list \<Rightarrow> metric_logger \<times> event list" where
  "evaluate_noncached_loop E grad_enabled m enc [] acc = acc"
| "evaluate_noncached_loop E grad_enabled m enc ((samples, targets) # rest) (ml, evs) =
     (let samples = forward_encoder E (weights enc) (training enc) samples;
          evs = evs @ [EncoderForward grad_enabled];
          outputs = forward E (weights m) (training m) samples;
          loss = criterion E outputs targets;
          evs = evs @ [EvalForward];
          outputs = forward E (weights m) (training m) samples;
          loss = criterion E outputs targets;
          evs = evs @ [EvalForward];
          (acc1, acc5) = accuracy E outputs targets;
          bsize = shape0 E samples;
          ml = logger_update ''loss'' loss ml;
          ml = meter_update ''acc1'' acc1 bsize ml;
          ml = meter_update ''acc5'' acc5 bsize ml
      in evaluate_noncached_loop E grad_enabled m enc rest (ml, evs))"

text \<open>
  \<open>evaluate(val_loader, model, encoder, device_model, device_encoder)\<close>, decorated with
  \<open>torch.no_grad()\<close>: the whole call runs with the gradient mode off.
\<close>

definition evaluate_noncached ::
  "('x, 't, 'y, 'w, 'o, 's, 'r, 'e, 'a) nc_ext_scheme \<Rightarrow> ('r \<times> 't) list \<Rightarrow> 'e nn_module \<Rightarrow>
   'w nn_module \<Rightarrow> (string \<times> pyfloat) list \<times> 'w nn_module \<times> event list" where
  "evaluate_noncached E val_loader enc m =
     (let grad_enabled = False;
          m = m\<lparr>training := False\<rparr>;
          (ml, evs) = evaluate_noncached_loop E grad_enabled m enc val_loader ([], [SetEval]);
          ml = synchronize_between_processes ml
      in (global_avgs ml, m, evs))"

text \<open>
  The evaluation function as the specification words it: the forward pass and the loss are
  computed once per batch.
\<close>

fun evaluate_once_loop ::
  "('x, 't, 'y, 'w, 'o, 's, 'r, 'e, 'a) nc_ext_scheme \<Rightarrow> bool \<Rightarrow> 'w nn_module \<Rightarrow> 'e nn_module \<Rightarrow>
   ('r \<times> 't) list \<Rightarrow> metric_logger \<times> event list \<Rightarrow> metric_logger \<times> event list" where
  "evaluate_once_loop E grad_enabled m enc [] acc = acc"
| "evaluate_once_loop E grad_enabled m enc ((samples, targets) # rest) (ml, evs) =
     (let samples = forward_encoder E (weights enc) (training enc) samples;
          evs = evs @ [EncoderForward grad_enabled];
          outputs = forward E (weights m) (training m) samples;
          loss = criterion E outputs targets;
          evs = evs @ [EvalForward];
          (acc1, acc5) = accuracy E outputs targets;
          bsize = shape0 E samples;
          ml = logger_update ''loss'' loss ml;
          ml = meter_update ''acc1'' acc1 bsize ml;
          ml = meter_update ''acc5'' acc5 bsize ml
      in evaluate_once_loop E grad_enabled m enc rest (ml, evs))"

definition evaluate_once ::
  "('x, 't, 'y, 'w, 'o, 's, 'r, 'e, 'a) nc_ext_scheme \<Rightarrow> ('r \<times> 't) list \<Rightarrow> 'e nn_module \<Rightarrow>
   'w nn_module \<Rightarrow> (string \<times> pyfloat) list \<times> 'w nn_module \<times> event list" where
  "evaluate_once E val_loader enc m =
     (let grad_enabled = False;
          m = m\<lparr>training := False\<rparr>;
          (ml, evs) = evaluate_once_loop E grad_enabled m enc val_loader ([], [SetEval]);
          ml = synchronize_between_processes ml
      in (global_avgs ml, m, evs))"

subsection \<open>\<open>main\<close>\<close>

text \<open>
  Lines 118 to 181. The encoder's forward pass runs inside \<open>with torch.no_grad()\<close>. The
  closing \<open>it += 1\<close> changes a variable that \<open>enumerate\<close> binds again before it is read.
\<close>

definition train_iter_noncached ::
  "('x, 't, 'y, 'w, 'o, 's, 'r, 'e, 'a) nc_ext_scheme \<Rightarrow> args \<Rightarrow> ('r \<times> 't) list \<Rightarrow> nat \<Rightarrow> 'r \<times> 't \<Rightarrow>
   ('x, 't, 'w, 'o, 's, 'e) nc_state \<Rightarrow>
   error \<times> ('x, 't, 'w, 'o, 's, 'e) nc_state + ('x, 't, 'w, 'o, 's, 'e) nc_state" where
  "train_iter_noncached E a val_loader it batch st =
     (case batch of (samples, targets) \<Rightarrow>
      let samples = forward_encoder E (weights (encoder st)) (training (encoder st)) samples;
          st = st\<lparr>trace := trace st @ [EncoderForward False]\<rparr>;
          outputs = forward E (weights (model st)) (training (model st)) samples;
          loss_value = criterion E outputs targets;
          st = st\<lparr>trace := trace st @ [Forward it]\<rparr>
      in after_loss E a (evaluate_noncached E val_loader (encoder st)) it samples targets
           loss_value st)"

text \<open>
  Modelled from the spec: \<open>util.misc.load_model\<close>, called on the encoder alone, is not among
  the source files. It restores the weights of the module it is given, and leaves its mode.
\<close>

definition load_encoder ::
  "string \<Rightarrow> ((string \<times> 'e) list) \<Rightarrow> 'e nn_module \<Rightarrow> error + 'e nn_module" where
  "load_encoder path encoder_files enc =
     (if path = [] then Inr enc
      else case map_of encoder_files path of
             None \<Rightarrow> Inl (CheckpointNotFound path)
           | Some w \<Rightarrow> Inr (enc\<lparr>weights := w\<rparr>))"

text \<open>Lines 86 to 112.\<close>

definition startup_noncached ::
  "('x, 't, 'y, 'w, 'o, 's, 'r, 'e, 'a) nc_ext_scheme \<Rightarrow> args \<Rightarrow>
   ((string \<times> ('w, 'o, 's) checkpoint) list) \<Rightarrow> ((string \<times> 'e) list) \<Rightarrow>
   error \<times> ('x, 't, 'w, 'o, 's, 'e) nc_state + ('x, 't, 'w, 'o, 's, 'e) nc_state" where
  "startup_noncached E a files encoder_files =
     (let st = \<lparr>model = \<lparr>weights = new_model E, training = True\<rparr>,
                grads = [],
                optimizer = new_optimizer E (new_model E),
                loss_scaler = new_scaler E,
                metric_logger = [],
                best_eval_acc1 = Fin 0,
                disk = files,
                log_file = [],
                trace = [],
                encoder = \<lparr>weights = new_encoder E, training = True\<rparr>\<rparr>;
          st = st\<lparr>encoder := (encoder st)\<lparr>training := False\<rparr>\<rparr>
      in case load_model (model_ckpt a) st of
           Inl x \<Rightarrow> Inl x
         | Inr st \<Rightarrow>
             (case load_encoder (encoder_ckpt a) encoder_files (encoder st) of
                Inl e \<Rightarrow> Inl (e, st)
              | Inr enc \<Rightarrow>
                  let st = st\<lparr>encoder := enc\<rparr>;
                      st = st\<lparr>model := (model st)\<lparr>training := True\<rparr>, trace := trace st @ [SetTrain]\<rparr>;
                      st = st\<lparr>metric_logger := []\<rparr>;
                      st = zero_grad StartupZeroGrad st;
                      st = st\<lparr>best_eval_acc1 := Fin 0\<rparr>
                  in Inr st))"

definition main_noncached ::
  "('x, 't, 'y, 'w, 'o, 's, 'r, 'e, 'a) nc_ext_scheme \<Rightarrow> args \<Rightarrow>
   ((string \<times> ('w, 'o, 's) checkpoint) list) \<Rightarrow> ((string \<times> 'e) list) \<Rightarrow>
   ('r \<times> 't) list \<Rightarrow> ('r \<times> 't) list \<Rightarrow>
   error \<times> ('x, 't, 'w, 'o, 's, 'e) nc_state + ('x, 't, 'w, 'o, 's, 'e) nc_state" where
  "main_noncached E a files encoder_files train_loader val_loader =
     (case startup_noncached E a files encoder_files of
        Inl x \<Rightarrow> Inl x
      | Inr st \<Rightarrow> for_enumerate (train_iter_noncached E a val_loader) 0 train_loader st)"


section \<open>A small instance\<close>

text \<open>
  Concrete collaborators on which the definitions can be run: a sample is its batch size, a
  target carries the loss and the accuracy that the batch produces, the weights count the
  optimizer steps.
\<close>

definition toy_ext :: "(nat, pyfloat \<times> pyfloat, nat, nat, nat, unit) ext" where
  "toy_ext = \<lparr>new_model = 0, new_optimizer = (\<lambda>w. 0), new_scaler = (),
     forward = (\<lambda>w tr x. x), criterion = (\<lambda>y t. fst t), accuracy = (\<lambda>y t. (snd t, snd t)),
     shape0 = (\<lambda>x. x), scaler_step = (\<lambda>s opt w g. (s, Suc opt, Suc w))\<rparr>"

definition toy_nc_ext :: "(nat, pyfloat \<times> pyfloat, nat, nat, nat, unit, nat, nat) nc_ext" where
  "toy_nc_ext = \<lparr>new_model = 0, new_optimizer = (\<lambda>w. 0), new_scaler = (),
     forward = (\<lambda>w tr x. x), criterion = (\<lambda>y t. fst t), accuracy = (\<lambda>y t. (snd t, snd t)),
     shape0 = (\<lambda>x. x), scaler_step = (\<lambda>s opt w g. (s, Suc opt, Suc w)),
     new_encoder = 0, forward_encoder = (\<lambda>e tr r. r)\<rparr>"

definition toy_args :: args where
  "toy_args = \<lparr>accum_iter = 2, save_freq = 2, save_prefix = ''run'', output_dir = ''out'',
     resume = [], model_ckpt = [], encoder_ckpt = []\<rparr>"

definition toy_val :: "(nat \<times> pyfloat \<times> pyfloat) list" where
  "toy_val = [(1, (Fin 1, Fin 50)), (3, (Fin 2, Fin 100))]"

definition toy_state :: "(nat, pyfloat \<times> pyfloat, nat, nat, unit) state" where
  "toy_state = \<lparr>model = \<lparr>weights = 0, training = True\<rparr>, grads = [], optimizer = 0,
     loss_scaler = (), metric_logger = [], best_eval_acc1 = Fin 0, disk = [],
     log_file = [], trace = []\<rparr>"

definition toy_nc_state :: "(nat, pyfloat \<times> pyfloat, nat, nat, unit, nat) nc_state" where
  "toy_nc_state = \<lparr>model = \<lparr>weights = 0, training = True\<rparr>, grads = [], optimizer = 0,
     loss_scaler = (), metric_logger = [], best_eval_acc1 = Fin 0, disk = [],
     log_file = [], trace = [], encoder = \<lparr>weights = 0, training = False\<rparr>\<rparr>"

definition toy_train :: "(nat \<times> pyfloat \<times> pyfloat) list" where
  "toy_train = [(2, (Fin 3, Fin 0)), (2, (Fin 2, Fin 0)), (2, (Fin 1, Fin 0)),
                (2, (Fin 1, Fin 0)), (2, (Fin 1, Fin 0))]"

section \<open>Basic facts\<close>

lemma fgt_irrefl: "\<not> fgt x x"
  by (cases x) simp_all

lemma fgt_trans: "fgt a b \<Longrightarrow> fgt b c \<Longrightarrow> fgt a c"
  by (cases a; cases b; cases c) simp_all

lemma projections_append [simp]:
  "batch_indices (xs @ ys) = batch_indices xs @ batch_indices ys"
  "optimizer_steps (xs @ ys) = optimizer_steps xs @ optimizer_steps ys"
  "zero_grads (xs @ ys) = zero_grads xs @ zero_grads ys"
  "eval_phases (xs @ ys) = eval_phases xs @ eval_phases ys"
  "saves (xs @ ys) = saves xs @ saves ys"
  by (simp_all add: batch_indices_def optimizer_steps_def zero_grads_def eval_phases_def saves_def)

lemma projections_Nil [simp]:
  "batch_indices [] = []" "optimizer_steps [] = []" "zero_grads [] = []"
  "eval_phases [] = []" "saves [] = []"
  by (simp_all add: batch_indices_def optimizer_steps_def zero_grads_def eval_phases_def saves_def)

lemma projections_Cons [simp]:
  "batch_indices (e # es) = (case e of Forward it \<Rightarrow> [it] | _ \<Rightarrow> []) @ batch_indices es"
  "optimizer_steps (e # es) = (case e of OptimizerStep it \<Rightarrow> [it] | _ \<Rightarrow> []) @ optimizer_steps es"
  "zero_grads (e # es) = (case e of ZeroGrad it \<Rightarrow> [it] | _ \<Rightarrow> []) @ zero_grads es"
  "eval_phases (e # es) = (case e of EvalPhase it \<Rightarrow> [it] | _ \<Rightarrow> []) @ eval_phases es"
  "saves (e # es) = (case e of SaveCheckpoint it \<Rightarrow> [it] | _ \<Rightarrow> []) @ saves es"
  by (simp_all add: batch_indices_def optimizer_steps_def zero_grads_def eval_phases_def saves_def)

text \<open>Events of an evaluation carry no batch index.\<close>

lemma projections_eval_only:
  assumes "set evs \<subseteq> {SetEval, EvalForward, EncoderForward False}"
  shows "batch_indices evs = []" "optimizer_steps evs = []" "zero_grads evs = []"
    "eval_phases evs = []" "saves evs = []"
  using assms by (induction evs) auto

lemma for_enumerate_projection:
  assumes step: "\<And>i b s s'. body i b s = Inr s' \<Longrightarrow> obs s' = obs s @ seg i"
      and run: "for_enumerate body it bs st = Inr st'"
  shows "obs st' = obs st @ concat (map seg [it..<it + length bs])"
  using run
proof (induction bs arbitrary: it st)
  case Nil
  then show ?case by simp
next
  case (Cons b bs)
  from Cons.prems obtain s1 where b: "body it b st = Inr s1"
    and r: "for_enumerate body (Suc it) bs s1 = Inr st'"
    by (auto split: sum.splits)
  have "obs st' = obs s1 @ concat (map seg [Suc it..<Suc it + length bs])"
    using Cons.IH [OF r] .
  moreover have "obs s1 = obs st @ seg it" using step [OF b] .
  moreover have "[it..<it + length (b # bs)] = it # [Suc it..<Suc it + length bs]"
    by (simp add: upt_rec)
  ultimately show ?case by simp
qed

lemma for_enumerate_invariant:
  assumes step: "\<And>i b s. I s \<Longrightarrow> I (final_state (body i b s))"
      and init: "I st"
  shows "I (final_state (for_enumerate body it bs st))"
  using init
proof (induction bs arbitrary: it st)
  case Nil
  then show ?case by (simp add: final_state_def)
next
  case (Cons b bs)
  show ?case
  proof (cases "body it b st")
    case (Inl x)
    with step [OF Cons.prems, of it b] show ?thesis by simp
  next
    case (Inr s1)
    with step [OF Cons.prems, of it b] have "I s1" by (simp add: final_state_def)
    from Cons.IH [OF this] Inr show ?thesis by simp
  qed
qed


lemma evaluate_loop_events:
  "snd (evaluate_loop E m dl (ml, evs)) = evs @ replicate (length dl) EvalForward"
proof (induction dl arbitrary: ml evs)
  case Nil
  then show ?case by simp
next
  case (Cons b dl)
  obtain x t where b: "b = (x, t)" by (cases b)
  show ?case
    by (simp add: b Let_def Cons.IH split: prod.splits)
qed

lemma evaluate_events:
  "snd (snd (evaluate E dl m)) = SetEval # replicate (length dl) EvalForward"
proof -
  obtain ml evs where l: "evaluate_loop E (m\<lparr>training := False\<rparr>) dl ([], [SetEval]) = (ml, evs)"
    by (cases "evaluate_loop E (m\<lparr>training := False\<rparr>) dl ([], [SetEval])")
  have "evs = [SetEval] @ replicate (length dl) EvalForward"
    using evaluate_loop_events [of E "m\<lparr>training := False\<rparr>" dl "[]" "[SetEval]"] l by simp
  then show ?thesis by (simp add: evaluate_def l)
qed

lemma evaluate_module: "fst (snd (evaluate E dl m)) = m\<lparr>training := False\<rparr>"
  by (simp add: evaluate_def Let_def split: prod.splits)

lemma evaluate_noncached_loop_events:
  "snd (evaluate_noncached_loop E g m enc dl (ml, evs)) =
     evs @ concat (replicate (length dl) [EncoderForward g, EvalForward, EvalForward])"
proof (induction dl arbitrary: ml evs)
  case Nil
  then show ?case by simp
next
  case (Cons b dl)
  obtain x t where b: "b = (x, t)" by (cases b)
  show ?case
    by (simp add: b Let_def Cons.IH split: prod.splits)
qed

lemma evaluate_noncached_events:
  "snd (snd (evaluate_noncached E dl enc m)) =
     SetEval # concat (replicate (length dl) [EncoderForward False, EvalForward, EvalForward])"
proof -
  obtain ml evs where l:
    "evaluate_noncached_loop E False (m\<lparr>training := False\<rparr>) enc dl ([], [SetEval]) = (ml, evs)"
    by (cases "evaluate_noncached_loop E False (m\<lparr>training := False\<rparr>) enc dl ([], [SetEval])")
  have "evs = [SetEval] @ concat (replicate (length dl) [EncoderForward False, EvalForward, EvalForward])"
    using evaluate_noncached_loop_events [of E False "m\<lparr>training := False\<rparr>" enc dl "[]" "[SetEval]"] l
    by simp
  then show ?thesis by (simp add: evaluate_noncached_def l)
qed

lemma evaluate_noncached_module: "fst (snd (evaluate_noncached E dl enc m)) = m\<lparr>training := False\<rparr>"
  by (simp add: evaluate_noncached_def Let_def split: prod.splits)

lemma evaluate_eval_only:
  "set (snd (snd (evaluate E dl m))) \<subseteq> {SetEval, EvalForward, EncoderForward False}"
  by (auto simp: evaluate_events)

lemma evaluate_noncached_eval_only:
  "set (snd (snd (evaluate_noncached E dl enc m))) \<subseteq> {SetEval, EvalForward, EncoderForward False}"
  by (auto simp: evaluate_noncached_events)


lemma eval_phase_Inr:
  assumes "eval_phase a ev it st = Inr st'"
  obtains test_stats m evs acc1 eval_loss where
    "ev (model st) = (test_stats, m, evs)"
    "map_of test_stats ''acc1'' = Some acc1"
    "map_of test_stats ''loss'' = Some eval_loss"
    "trace st' = trace st @ [EvalPhase it] @ evs @ [EvalAcc1 it acc1]
        @ (if fgt acc1 (best_eval_acc1 st) then [SaveCheckpoint it] else []) @ [LogWrite it, SetTrain]"
    "disk st' = (if fgt acc1 (best_eval_acc1 st)
                 then AList.update (checkpoint_path a)
                        \<lparr>ck_model = weights m, ck_optimizer = optimizer st, ck_args = a,
                         ck_iteration = it, ck_scaler = loss_scaler st\<rparr> (disk st)
                 else disk st)"
    "best_eval_acc1 st' = (if fgt acc1 (best_eval_acc1 st) then acc1 else best_eval_acc1 st)"
    "model st' = m\<lparr>training := True\<rparr>"
    "metric_logger st' = []"
    "log_file st' = log_file st @
       [map (\<lambda>(k, v). (''train_'' @ k, LFloat v)) (global_avgs (metric_logger st))
        @ [(''eval_loss'', LFloat eval_loss), (''iteration'', LInt it)]]"
    "grads st' = grads st" "optimizer st' = optimizer st" "loss_scaler st' = loss_scaler st"
proof -
  obtain test_stats m evs where ev: "ev (model st) = (test_stats, m, evs)"
    by (cases "ev (model st)")
  from assms ev obtain acc1 where a1: "map_of test_stats ''acc1'' = Some acc1"
    by (auto simp: eval_phase_def Let_def dict_get_def split: option.splits)
  from assms ev a1 obtain eval_loss where l: "map_of test_stats ''loss'' = Some eval_loss"
    by (auto simp: eval_phase_def Let_def dict_get_def split: option.splits)
  have
    "trace st' = trace st @ [EvalPhase it] @ evs @ [EvalAcc1 it acc1]
        @ (if fgt acc1 (best_eval_acc1 st) then [SaveCheckpoint it] else []) @ [LogWrite it, SetTrain]"
    "disk st' = (if fgt acc1 (best_eval_acc1 st)
                 then AList.update (checkpoint_path a)
                        \<lparr>ck_model = weights m, ck_optimizer = optimizer st, ck_args = a,
                         ck_iteration = it, ck_scaler = loss_scaler st\<rparr> (disk st)
                 else disk st)"
    "best_eval_acc1 st' = (if fgt acc1 (best_eval_acc1 st) then acc1 else best_eval_acc1 st)"
    "model st' = m\<lparr>training := True\<rparr>"
    "metric_logger st' = []"
    "log_file st' = log_file st @
       [map (\<lambda>(k, v). (''train_'' @ k, LFloat v)) (global_avgs (metric_logger st))
        @ [(''eval_loss'', LFloat eval_loss), (''iteration'', LInt it)]]"
    "grads st' = grads st" "optimizer st' = optimizer st" "loss_scaler st' = loss_scaler st"
    using assms ev a1 l
    by (cases "fgt acc1 (best_eval_acc1 st)";
        auto simp: eval_phase_def Let_def dict_get_def save_on_master_def
          synchronize_between_processes_def)+
  with ev a1 l show ?thesis by (rule that)
qed


lemma more_encoder:
  "state.more (s :: ('x, 't, 'w, 'o, 's, 'e) nc_state) = state.more st \<Longrightarrow> encoder s = encoder st"
  by (cases s, cases st) simp

lemma step_update_fields:
  "trace (step_update E a it x t l r st) =
     trace st @ [Backward it] @ (if r = 0 then [OptimizerStep it, ZeroGrad it] else [])
       @ [MetricUpdate it]"
  "grads (step_update E a it x t l r st) = (if r = 0 then [] else grads st @ [(x, t, accum_iter a)])"
  "metric_logger (step_update E a it x t l r st) = logger_update ''loss'' l (metric_logger st)"
  "disk (step_update E a it x t l r st) = disk st"
  "best_eval_acc1 (step_update E a it x t l r st) = best_eval_acc1 st"
  "log_file (step_update E a it x t l r st) = log_file st"
  "state.more (step_update E a it x t l r st) = state.more st"
  "training (model (step_update E a it x t l r st)) = training (model st)"
  by (auto simp: step_update_def loss_scaler_call_def zero_grad_def Let_def split: prod.splits)

lemma step_update_weights:
  "r \<noteq> 0 \<Longrightarrow> model (step_update E a it x t l r st) = model st
      \<and> optimizer (step_update E a it x t l r st) = optimizer st
      \<and> loss_scaler (step_update E a it x t l r st) = loss_scaler st"
  "r = 0 \<Longrightarrow> (loss_scaler (step_update E a it x t l r st), optimizer (step_update E a it x t l r st),
               weights (model (step_update E a it x t l r st))) =
        scaler_step E (loss_scaler st) (optimizer st) (weights (model st)) (grads st @ [(x, t, accum_iter a)])"
  by (auto simp: step_update_def loss_scaler_call_def zero_grad_def Let_def split: prod.splits)

text \<open>What a completed loop body has done.\<close>

lemma after_loss_Inr:
  assumes "after_loss E a ev it x t l st = Inr st'"
  shows "isfinite l" "accum_iter a \<noteq> 0" "it \<noteq> 0 \<Longrightarrow> save_freq a \<noteq> 0"
    "it \<noteq> 0 \<and> int it mod save_freq a = 0 \<Longrightarrow>
       eval_phase a ev it (step_update E a it x t l ((int it + 1) mod accum_iter a)
          (st\<lparr>trace := trace st @ [ScaleLoss it]\<rparr>)) = Inr st'"
    "\<not> (it \<noteq> 0 \<and> int it mod save_freq a = 0) \<Longrightarrow>
       st' = step_update E a it x t l ((int it + 1) mod accum_iter a)
          (st\<lparr>trace := trace st @ [ScaleLoss it]\<rparr>)"
  using assms
  by (auto simp: after_loss_def py_mod_def Let_def split: if_splits)

lemma after_loss_trace:
  assumes "after_loss E a ev it x t l st = Inr st'"
  shows "\<exists>rest. trace st' = trace st @ [ScaleLoss it, Backward it]
           @ (if (int it + 1) mod accum_iter a = 0 then [OptimizerStep it, ZeroGrad it] else [])
           @ MetricUpdate it # rest
         \<and> (if it \<noteq> 0 \<and> int it mod save_freq a = 0
            then \<exists>acc1. rest = [EvalPhase it] @ snd (snd (ev (model
                     (step_update E a it x t l ((int it + 1) mod accum_iter a)
                        (st\<lparr>trace := trace st @ [ScaleLoss it]\<rparr>)))))
                   @ [EvalAcc1 it acc1]
                   @ (if fgt acc1 (best_eval_acc1 st) then [SaveCheckpoint it] else [])
                   @ [LogWrite it, SetTrain]
            else rest = [])"
proof (cases "it \<noteq> 0 \<and> int it mod save_freq a = 0")
  case True
  let ?mid = "step_update E a it x t l ((int it + 1) mod accum_iter a)
                (st\<lparr>trace := trace st @ [ScaleLoss it]\<rparr>)"
  from after_loss_Inr(4) [OF assms True] have e: "eval_phase a ev it ?mid = Inr st'" .
  from e obtain test_stats m evs acc1 where
    ev: "ev (model ?mid) = (test_stats, m, evs)" and
    tr: "trace st' = trace ?mid @ [EvalPhase it] @ evs @ [EvalAcc1 it acc1]
        @ (if fgt acc1 (best_eval_acc1 ?mid) then [SaveCheckpoint it] else []) @ [LogWrite it, SetTrain]"
    by (rule eval_phase_Inr)
  show ?thesis
    using True tr ev by (simp add: step_update_fields)
next
  case False
  from after_loss_Inr(5) [OF assms False] show ?thesis
    using False by (simp add: step_update_fields)
qed

lemma after_loss_projections:
  assumes r: "after_loss E a ev it x t l st = Inr st'"
      and ev: "\<And>m. set (snd (snd (ev m))) \<subseteq> {SetEval, EvalForward, EncoderForward False}"
  shows "optimizer_steps (trace st') = optimizer_steps (trace st)
           @ (if (int it + 1) mod accum_iter a = 0 then [it] else [])"
    "zero_grads (trace st') = zero_grads (trace st)
           @ (if (int it + 1) mod accum_iter a = 0 then [it] else [])"
    "eval_phases (trace st') = eval_phases (trace st)
           @ (if it \<noteq> 0 \<and> int it mod save_freq a = 0 then [it] else [])"
    "batch_indices (trace st') = batch_indices (trace st)"
proof -
  from after_loss_trace [OF r] obtain rest where
    tr: "trace st' = trace st @ [ScaleLoss it, Backward it]
           @ (if (int it + 1) mod accum_iter a = 0 then [OptimizerStep it, ZeroGrad it] else [])
           @ MetricUpdate it # rest" and
    rest: "if it \<noteq> 0 \<and> int it mod save_freq a = 0
            then \<exists>acc1. rest = [EvalPhase it] @ snd (snd (ev (model
                     (step_update E a it x t l ((int it + 1) mod accum_iter a)
                        (st\<lparr>trace := trace st @ [ScaleLoss it]\<rparr>)))))
                   @ [EvalAcc1 it acc1]
                   @ (if fgt acc1 (best_eval_acc1 st) then [SaveCheckpoint it] else [])
                   @ [LogWrite it, SetTrain]
            else rest = []"
    by blast
  note p = projections_eval_only [OF ev]
  have "optimizer_steps rest = []" "zero_grads rest = []" "batch_indices rest = []"
    "eval_phases rest = (if it \<noteq> 0 \<and> int it mod save_freq a = 0 then [it] else [])"
    using rest by (auto simp: p split: if_splits)
  then show "optimizer_steps (trace st') = optimizer_steps (trace st)
           @ (if (int it + 1) mod accum_iter a = 0 then [it] else [])"
    "zero_grads (trace st') = zero_grads (trace st)
           @ (if (int it + 1) mod accum_iter a = 0 then [it] else [])"
    "eval_phases (trace st') = eval_phases (trace st)
           @ (if it \<noteq> 0 \<and> int it mod save_freq a = 0 then [it] else [])"
    "batch_indices (trace st') = batch_indices (trace st)"
    by (simp_all add: tr)
qed

lemma after_loss_grads:
  assumes "after_loss E a ev it x t l st = Inr st'"
  shows "grads st' = (if (int it + 1) mod accum_iter a = 0 then [] else grads st @ [(x, t, accum_iter a)])"
proof (cases "it \<noteq> 0 \<and> int it mod save_freq a = 0")
  case True
  from after_loss_Inr(4) [OF assms True] show ?thesis
    by (elim eval_phase_Inr) (simp add: step_update_fields)
next
  case False
  from after_loss_Inr(5) [OF assms False] show ?thesis
    by (simp add: step_update_fields)
qed

lemma startup_Inr:
  assumes "startup E a files = Inr st"
  shows "trace st = [SetTrain, StartupZeroGrad]" "best_eval_acc1 st = Fin 0" "grads st = []"
    "disk st = files" "training (model st)" "metric_logger st = []" "log_file st = []"
  using assms
  by (auto simp: startup_def load_model_def zero_grad_def Let_def split: if_splits option.splits)

lemma startup_noncached_Inr:
  assumes "startup_noncached E a files encoder_files = Inr st"
  shows "trace st = [SetTrain, StartupZeroGrad]" "best_eval_acc1 st = Fin 0" "grads st = []"
    "disk st = files" "training (model st)" "metric_logger st = []" "log_file st = []"
  using assms
  by (auto simp: startup_noncached_def load_model_def zero_grad_def Let_def
      split: if_splits option.splits sum.splits)

lemma train_iter_projections:
  assumes "train_iter E a val_loader it b st = Inr st'"
  shows "optimizer_steps (trace st') = optimizer_steps (trace st)
           @ (if (int it + 1) mod accum_iter a = 0 then [it] else [])"
    "zero_grads (trace st') = zero_grads (trace st)
           @ (if (int it + 1) mod accum_iter a = 0 then [it] else [])"
    "eval_phases (trace st') = eval_phases (trace st)
           @ (if it \<noteq> 0 \<and> int it mod save_freq a = 0 then [it] else [])"
    "batch_indices (trace st') = batch_indices (trace st) @ [it]"
proof -
  obtain x t where b: "b = (x, t)" by (cases b)
  let ?l = "criterion E (forward E (weights (model st)) (training (model st)) x) t"
  let ?s = "st\<lparr>trace := trace st @ [Forward it]\<rparr>"
  from assms have r: "after_loss E a (evaluate E val_loader) it x t ?l ?s = Inr st'"
    by (simp add: train_iter_def b Let_def)
  note p = after_loss_projections [OF r evaluate_eval_only]
  show "optimizer_steps (trace st') = optimizer_steps (trace st)
           @ (if (int it + 1) mod accum_iter a = 0 then [it] else [])"
    "zero_grads (trace st') = zero_grads (trace st)
           @ (if (int it + 1) mod accum_iter a = 0 then [it] else [])"
    "eval_phases (trace st') = eval_phases (trace st)
           @ (if it \<noteq> 0 \<and> int it mod save_freq a = 0 then [it] else [])"
    "batch_indices (trace st') = batch_indices (trace st) @ [it]"
    using p by simp_all
qed

lemma train_iter_noncached_projections:
  assumes "train_iter_noncached E a val_loader it b st = Inr st'"
  shows "optimizer_steps (trace st') = optimizer_steps (trace st)
           @ (if (int it + 1) mod accum_iter a = 0 then [it] else [])"
    "zero_grads (trace st') = zero_grads (trace st)
           @ (if (int it + 1) mod accum_iter a = 0 then [it] else [])"
    "eval_phases (trace st') = eval_phases (trace st)
           @ (if it \<noteq> 0 \<and> int it mod save_freq a = 0 then [it] else [])"
    "batch_indices (trace st') = batch_indices (trace st) @ [it]"
proof -
  obtain x t where b: "b = (x, t)" by (cases b)
  let ?x = "forward_encoder E (weights (encoder st)) (training (encoder st)) x"
  let ?l = "criterion E (forward E (weights (model st)) (training (model st)) ?x) t"
  let ?s = "st\<lparr>trace := trace st @ [EncoderForward False, Forward it]\<rparr>"
  from assms have r:
    "after_loss E a (evaluate_noncached E val_loader (encoder st)) it ?x t ?l ?s = Inr st'"
    by (simp add: train_iter_noncached_def b Let_def)
  note p = after_loss_projections [OF r evaluate_noncached_eval_only]
  show "optimizer_steps (trace st') = optimizer_steps (trace st)
           @ (if (int it + 1) mod accum_iter a = 0 then [it] else [])"
    "zero_grads (trace st') = zero_grads (trace st)
           @ (if (int it + 1) mod accum_iter a = 0 then [it] else [])"
    "eval_phases (trace st') = eval_phases (trace st)
           @ (if it \<noteq> 0 \<and> int it mod save_freq a = 0 then [it] else [])"
    "batch_indices (trace st') = batch_indices (trace st) @ [it]"
    using p by simp_all
qed

lemma concat_map_if: "concat (map (\<lambda>i. if P i then [i] else []) xs) = filter P xs"
  by (induction xs) simp_all

lemma concat_map_single: "concat (map (\<lambda>i. [i]) xs) = xs"
  by (induction xs) simp_all

text \<open>The indices of a completed run of the first script.\<close>

lemma main_projections:
  assumes "main E a files train_loader val_loader = Inr st"
  shows "optimizer_steps (trace st)
           = filter (\<lambda>it. (int it + 1) mod accum_iter a = 0) [0..<length train_loader]"
    "zero_grads (trace st)
           = filter (\<lambda>it. (int it + 1) mod accum_iter a = 0) [0..<length train_loader]"
    "eval_phases (trace st)
           = filter (\<lambda>it. it \<noteq> 0 \<and> int it mod save_freq a = 0) [0..<length train_loader]"
    "batch_indices (trace st) = [0..<length train_loader]"
proof -
  from assms obtain st0 where s0: "startup E a files = Inr st0"
    and run: "for_enumerate (train_iter E a val_loader) 0 train_loader st0 = Inr st"
    by (auto simp: main_def split: sum.splits)
  note t0 = startup_Inr(1) [OF s0]
  show "optimizer_steps (trace st)
           = filter (\<lambda>it. (int it + 1) mod accum_iter a = 0) [0..<length train_loader]"
    using for_enumerate_projection [where obs = "\<lambda>s. optimizer_steps (trace s)", OF _ run,
        where seg = "\<lambda>it. if (int it + 1) mod accum_iter a = 0 then [it] else []"]
      train_iter_projections(1) [of E a val_loader]
    by (simp add: t0 concat_map_if)
  show "zero_grads (trace st)
           = filter (\<lambda>it. (int it + 1) mod accum_iter a = 0) [0..<length train_loader]"
    using for_enumerate_projection [where obs = "\<lambda>s. zero_grads (trace s)", OF _ run,
        where seg = "\<lambda>it. if (int it + 1) mod accum_iter a = 0 then [it] else []"]
      train_iter_projections(2) [of E a val_loader]
    by (simp add: t0 concat_map_if)
  show "eval_phases (trace st)
           = filter (\<lambda>it. it \<noteq> 0 \<and> int it mod save_freq a = 0) [0..<length train_loader]"
    using for_enumerate_projection [where obs = "\<lambda>s. eval_phases (trace s)", OF _ run,
        where seg = "\<lambda>it. if it \<noteq> 0 \<and> int it mod save_freq a = 0 then [it] else []"]
      train_iter_projections(3) [of E a val_loader]
    by (simp add: t0 concat_map_if)
  show "batch_indices (trace st) = [0..<length train_loader]"
    using for_enumerate_projection [where obs = "\<lambda>s. batch_indices (trace s)", OF _ run,
        where seg = "\<lambda>it. [it]"]
      train_iter_projections(4) [of E a val_loader]
    by (simp add: t0 concat_map_single)
qed

text \<open>The indices of a completed run of the second script.\<close>

lemma main_noncached_projections:
  assumes "main_noncached E a files encoder_files train_loader val_loader = Inr st"
  shows "optimizer_steps (trace st)
           = filter (\<lambda>it. (int it + 1) mod accum_iter a = 0) [0..<length train_loader]"
    "zero_grads (trace st)
           = filter (\<lambda>it. (int it + 1) mod accum_iter a = 0) [0..<length train_loader]"
    "eval_phases (trace st)
           = filter (\<lambda>it. it \<noteq> 0 \<and> int it mod save_freq a = 0) [0..<length train_loader]"
    "batch_indices (trace st) = [0..<length train_loader]"
proof -
  from assms obtain st0 where s0: "startup_noncached E a files encoder_files = Inr st0"
    and run: "for_enumerate (train_iter_noncached E a val_loader) 0 train_loader st0 = Inr st"
    by (auto simp: main_noncached_def split: sum.splits)
  note t0 = startup_noncached_Inr(1) [OF s0]
  show "optimizer_steps (trace st)
           = filter (\<lambda>it. (int it + 1) mod accum_iter a = 0) [0..<length train_loader]"
    using for_enumerate_projection [where obs = "\<lambda>s. optimizer_steps (trace s)", OF _ run,
        where seg = "\<lambda>it. if (int it + 1) mod accum_iter a = 0 then [it] else []"]
      train_iter_noncached_projections(1) [of E a val_loader]
    by (simp add: t0 concat_map_if)
  show "zero_grads (trace st)
           = filter (\<lambda>it. (int it + 1) mod accum_iter a = 0) [0..<length train_loader]"
    using for_enumerate_projection [where obs = "\<lambda>s. zero_grads (trace s)", OF _ run,
        where seg = "\<lambda>it. if (int it + 1) mod accum_iter a = 0 then [it] else []"]
      train_iter_noncached_projections(2) [of E a val_loader]
    by (simp add: t0 concat_map_if)
  show "eval_phases (trace st)
           = filter (\<lambda>it. it \<noteq> 0 \<and> int it mod save_freq a = 0) [0..<length train_loader]"
    using for_enumerate_projection [where obs = "\<lambda>s. eval_phases (trace s)", OF _ run,
        where seg = "\<lambda>it. if it \<noteq> 0 \<and> int it mod save_freq a = 0 then [it] else []"]
      train_iter_noncached_projections(3) [of E a val_loader]
    by (simp add: t0 concat_map_if)
  show "batch_indices (trace st) = [0..<length train_loader]"
    using for_enumerate_projection [where obs = "\<lambda>s. batch_indices (trace s)", OF _ run,
        where seg = "\<lambda>it. [it]"]
      train_iter_noncached_projections(4) [of E a val_loader]
    by (simp add: t0 concat_map_single)
qed

text \<open>Among \<open>a\<close> consecutive indices exactly one is an accumulation boundary.\<close>

lemma boundary_exists:
  assumes "1 \<le> (a::int)"
  shows "\<exists>it::nat. s \<le> it \<and> it < s + nat a \<and> (int it + 1) mod a = 0"
proof -
  define d where "d = nat ((- (int s + 1)) mod a)"
  have d: "int d = (- (int s + 1)) mod a" using assms by (simp add: d_def)
  have "int d < a" using assms by (simp add: d)
  then have "s + d < s + nat a" by linarith
  moreover have "(int (s + d) + 1) mod a = ((int s + 1) + (- (int s + 1)) mod a) mod a"
    by (simp add: d algebra_simps)
  then have "(int (s + d) + 1) mod a = 0"
    by (simp add: mod_add_right_eq)
  ultimately show ?thesis by (intro exI [of _ "s + d"]) simp
qed

lemma boundary_unique:
  assumes a: "1 \<le> (a::int)"
    and i: "s \<le> i" "i < s + nat a" "(int i + 1) mod a = 0"
    and j: "s \<le> j" "j < s + nat a" "(int j + 1) mod a = 0"
  shows "i = (j::nat)"
proof -
  have "a dvd (int i + 1)" "a dvd (int j + 1)" using i j by (simp_all add: dvd_eq_mod_eq_0)
  then have dv: "a dvd (int i - int j)"
    by (metis add_diff_cancel_right dvd_diff)
  have lt: "\<bar>int i - int j\<bar> < a" using i j a by linarith
  have "int i - int j = 0"
  proof (rule ccontr)
    assume "int i - int j \<noteq> 0"
    with dv have "\<bar>a\<bar> \<le> \<bar>int i - int j\<bar>"
      using dvd_imp_le_int [of "int i - int j" a] by simp
    with lt a show False by linarith
  qed
  then show ?thesis by simp
qed

lemma boundary_aligned:
  assumes "1 \<le> (a::int)"
  shows "(int ((k + 1) * nat a - 1) + 1) mod a = 0"
proof -
  have "1 \<le> (k + 1) * nat a" using assms by (simp add: Suc_leI)
  then have "int ((k + 1) * nat a - 1) + 1 = int ((k + 1) * nat a)" by linarith
  also have "\<dots> = (int k + 1) * a" using assms by (simp add: algebra_simps)
  finally show ?thesis by simp
qed

lemmas toy_defs = toy_ext_def toy_nc_ext_def toy_args_def toy_val_def toy_state_def toy_nc_state_def

lemmas metric_defs = dict_get_def global_avgs_def meter_update_def logger_update_def meters_get_def
  synchronize_between_processes_def global_avg_def meter_count_def meter_total_def

section \<open>Fail-fast on a non-finite loss\<close>

lemma after_loss_nonfinite:
  "\<not> isfinite l \<Longrightarrow> after_loss E a ev it x t l st = Inl (SystemExit 1, st)"
  by (simp add: after_loss_def)

text \<open>
  C3. When the loss of a training step is not finite, the loop body ends the process with
  exit status 1, in both scripts. The state at that moment is the state before the step
  with only the forward passes added to the trace: the loss was not divided, no backward
  pass ran, the optimizer, the weights, the gradient buffers and the metric aggregator are
  as they were. The loop consumes no further batch.
\<close>

theorem nonfinite_loss_exits:
  "(\<not> isfinite (criterion E (forward E (weights (model st)) (training (model st)) samples) targets) \<longrightarrow>
      train_iter E a val_loader it (samples, targets) st
        = Inl (SystemExit 1, st\<lparr>trace := trace st @ [Forward it]\<rparr>) \<and>
      for_enumerate (train_iter E a val_loader) it ((samples, targets) # rest) st
        = Inl (SystemExit 1, st\<lparr>trace := trace st @ [Forward it]\<rparr>)) \<and>
   (\<not> isfinite (criterion E' (forward E' (weights (model st')) (training (model st'))
        (forward_encoder E' (weights (encoder st')) (training (encoder st')) samples')) targets') \<longrightarrow>
      train_iter_noncached E' a val_loader' it (samples', targets') st'
        = Inl (SystemExit 1, st'\<lparr>trace := trace st' @ [EncoderForward False, Forward it]\<rparr>) \<and>
      for_enumerate (train_iter_noncached E' a val_loader') it ((samples', targets') # rest') st'
        = Inl (SystemExit 1, st'\<lparr>trace := trace st' @ [EncoderForward False, Forward it]\<rparr>))"
  by (simp add: train_iter_def train_iter_noncached_def Let_def after_loss_nonfinite)

theorem nonfinite_loss_exits_witness:
  "\<not> isfinite (criterion toy_ext (forward toy_ext (weights (model toy_state)) (training (model toy_state)) 4) (NaN, Fin 0)) \<and>
   train_iter toy_ext toy_args toy_val 3 (4, (NaN, Fin 0)) toy_state
     = Inl (SystemExit 1, toy_state\<lparr>trace := [Forward 3]\<rparr>) \<and>
   \<not> isfinite (criterion toy_nc_ext (forward toy_nc_ext (weights (model toy_nc_state)) (training (model toy_nc_state))
        (forward_encoder toy_nc_ext (weights (encoder toy_nc_state)) (training (encoder toy_nc_state)) 4)) (PosInf, Fin 0)) \<and>
   train_iter_noncached toy_nc_ext toy_args toy_val 3 (4, (PosInf, Fin 0)) toy_nc_state
     = Inl (SystemExit 1, toy_nc_state\<lparr>trace := [EncoderForward False, Forward 3]\<rparr>)"
proof -
  have h1: "\<not> isfinite (criterion toy_ext (forward toy_ext (weights (model toy_state)) (training (model toy_state)) 4) (NaN, Fin 0))"
    by (simp add: toy_defs)
  have h2: "\<not> isfinite (criterion toy_nc_ext (forward toy_nc_ext (weights (model toy_nc_state)) (training (model toy_nc_state))
        (forward_encoder toy_nc_ext (weights (encoder toy_nc_state)) (training (encoder toy_nc_state)) 4)) (PosInf, Fin 0))"
    by (simp add: toy_defs)
  have t: "trace toy_state = []" "trace toy_nc_state = []" by (simp_all add: toy_defs)
  show ?thesis
    using h1 h2 t
      nonfinite_loss_exits [of toy_ext toy_state 4 "(NaN, Fin 0)" toy_args toy_val 3 "[]"
        toy_nc_ext toy_nc_state 4 "(PosInf, Fin 0)" toy_val "[]"]
    by simp
qed

end
